theory Spec2Isabelle
  imports Main "HOL-Library.AList"
begin

section \<open>Python values and the library functions the agents call\<close>

text \<open>
  The values \<open>json.loads\<close> can return and \<open>json.dumps\<close> accepts. A dictionary is
  the list of its items, in insertion order, with pairwise distinct keys; a float is kept as
  the text of its literal, since the agents never compute with one.
\<close>

datatype pyval =
    PNone
  | PBool bool
  | PInt int
  | PFloat string
  | PStr string
  | PList "pyval list"
  | PDict "(string \<times> pyval) list"

text \<open>
  The exceptions that can leave a handler: \<open>AttributeError\<close> when \<open>.get\<close> is
  called on a parsed payload that is not a dictionary, and the failure of the transport's
  \<open>send\<close>.
\<close>

datatype exn = AttributeError | DeliveryError

text \<open>\<open>content.get(key, default)\<close>; only a dictionary has the method.\<close>

definition py_get :: "pyval \<Rightarrow> string \<Rightarrow> pyval \<Rightarrow> exn + pyval" where
  "py_get content k d =
     (case content of
        PDict kvs \<Rightarrow> Inr (case map_of kvs k of Some v \<Rightarrow> v | None \<Rightarrow> d)
      | _ \<Rightarrow> Inl AttributeError)"

text \<open>\<open>key in content\<close>, used only after a \<open>.get\<close> has returned.\<close>

definition py_has_key :: "pyval \<Rightarrow> string \<Rightarrow> bool" where
  "py_has_key content k =
     (case content of PDict kvs \<Rightarrow> k \<in> set (map fst kvs) | _ \<Rightarrow> False)"

text \<open>\<open>str(n)\<close> for a non-negative integer.\<close>

definition digit :: "nat \<Rightarrow> char" where
  "digit n = ''0123456789'' ! n"

fun str_nat :: "nat \<Rightarrow> string" where
  "str_nat n = (if n < 10 then [digit n] else str_nat (n div 10) @ [digit (n mod 10)])"

declare str_nat.simps [simp del]

text \<open>
  \<open>datetime.now()\<close> yields year, month, day, hour, minute and second; the two
  \<open>strftime\<close> formats of the source pad each field but the year to two digits (the year
  of a current date has four).
\<close>

datatype datetime = Datetime nat nat nat nat nat nat

definition pad2 :: "nat \<Rightarrow> string" where
  "pad2 n = (if n < 10 then CHR ''0'' # str_nat n else str_nat n)"

fun strftime_HMS :: "datetime \<Rightarrow> string" where
  "strftime_HMS (Datetime y m d H M S) = pad2 H @ '':'' @ pad2 M @ '':'' @ pad2 S"

fun strftime_Ymd_HMS :: "datetime \<Rightarrow> string" where
  "strftime_Ymd_HMS (Datetime y m d H M S) =
     str_nat y @ ''-'' @ pad2 m @ ''-'' @ pad2 d @ '' '' @ pad2 H @ '':'' @ pad2 M @ '':'' @ pad2 S"

text \<open>\<open>str.upper()\<close> on ASCII text; other characters are left as they are.\<close>

definition upper_char :: "char \<Rightarrow> char" where
  "upper_char c =
     (case map_of (zip ''abcdefghijklmnopqrstuvwxyz'' ''ABCDEFGHIJKLMNOPQRSTUVWXYZ'') c of
        Some u \<Rightarrow> u
      | None \<Rightarrow> c)"

definition upper :: "string \<Rightarrow> string" where
  "upper s = map upper_char s"

text \<open>\<open>s.split("@")[0]\<close>: the text before the first \<open>@\<close>, all of it when there is none.\<close>

definition split_at_0 :: "string \<Rightarrow> string" where
  "split_at_0 s = takeWhile (\<lambda>c. c \<noteq> CHR ''@'') s"

section \<open>Performatives and messages\<close>

definition INFORM :: string where "INFORM = ''inform''"
definition REQUEST :: string where "REQUEST = ''request''"
definition PROPOSE :: string where "PROPOSE = ''propose''"
definition ACCEPT :: string where "ACCEPT = ''accept-proposal''"
definition REFUSE :: string where "REFUSE = ''refuse''"
definition AGREE :: string where "AGREE = ''agree''"
definition CONFIRM :: string where "CONFIRM = ''confirm''"

text \<open>
  A message of the agent framework: recipient, sender (unset on a message the agent has just
  built), the metadata dictionary and the body (unset until assigned).
\<close>

record message =
  to :: string
  sender :: "string option"
  metadata :: "(string \<times> string) list"
  body :: "string option"

definition Message :: "string \<Rightarrow> message" where
  "Message recipient = \<lparr>to = recipient, sender = None, metadata = [], body = None\<rparr>"

definition set_metadata :: "string \<Rightarrow> string \<Rightarrow> message \<Rightarrow> message" where
  "set_metadata k v m = m\<lparr>metadata := AList.update k v (metadata m)\<rparr>"

text \<open>\<open>msg.metadata.get("performative", "unknown")\<close>\<close>

definition performative_of :: "message \<Rightarrow> string" where
  "performative_of m =
     (case map_of (metadata m) ''performative'' of Some p \<Rightarrow> p | None \<Rightarrow> ''unknown'')"

text \<open>\<open>str(x)\<close> of a sender or a body, which may be \<open>None\<close>.\<close>

definition str_opt :: "string option \<Rightarrow> string" where
  "str_opt x = (case x of Some s \<Rightarrow> s | None \<Rightarrow> ''None'')"

section \<open>The world outside an agent\<close>

text \<open>
  What an agent does to its surroundings is recorded as a trace of events, in the order of
  the calls: a message the transport accepted, a message whose \<open>send\<close> raised, a file
  opened for writing (truncated) or for appending with the text written, and a sleep.
\<close>

datatype event =
    Sent message
  | Undelivered message
  | FileWrite string string
  | FileAppend string string
  | Slept nat

record world =
  trace :: "event list"
  now_calls :: nat
  send_calls :: nat

text \<open>
  What the surroundings answer: the reading of the clock at each call of
  \<open>datetime.now()\<close>, whether the transport accepts the message of each call of
  \<open>send\<close>, and the two functions of the \<open>json\<close> library, \<open>loads\<close> giving
  \<open>None\<close> where the library raises.
\<close>

record env =
  clock :: "nat \<Rightarrow> datetime"
  delivers :: "nat \<Rightarrow> bool"
  loads :: "string \<Rightarrow> pyval option"
  dumps :: "pyval \<Rightarrow> string"

definition now :: "env \<Rightarrow> world \<Rightarrow> datetime \<times> world" where
  "now e w = (clock e (now_calls w), w\<lparr>now_calls := Suc (now_calls w)\<rparr>)"

definition emit :: "event \<Rightarrow> world \<Rightarrow> world" where
  "emit ev w = w\<lparr>trace := trace w @ [ev]\<rparr>"

definition send :: "env \<Rightarrow> message \<Rightarrow> world \<Rightarrow> exn option \<times> world" where
  "send e m w =
     (let w' = w\<lparr>send_calls := Suc (send_calls w)\<rparr>
      in if delivers e (send_calls w) then (None, emit (Sent m) w')
         else (Some DeliveryError, emit (Undelivered m) w'))"

definition sleep :: "nat \<Rightarrow> world \<Rightarrow> exn option \<times> world" where
  "sleep n w = (None, emit (Slept n) w)"

text \<open>Sequencing: an exception skips what follows; what was done before it stays done.\<close>

definition seq :: "exn option \<times> world \<Rightarrow> (world \<Rightarrow> exn option \<times> world) \<Rightarrow> exn option \<times> world" where
  "seq r k = (case r of (None, w) \<Rightarrow> k w | (Some x, w) \<Rightarrow> (Some x, w))"

text \<open>
  The \<open>try: json.loads(msg.body) except: {"text": msg.body}\<close> of both handlers; a body
  that is \<open>None\<close> makes \<open>json.loads\<close> raise as well.
\<close>

definition parse_body :: "env \<Rightarrow> message \<Rightarrow> pyval" where
  "parse_body e msg =
     (case body msg of
        None \<Rightarrow> PDict [(''text'', PNone)]
      | Some s \<Rightarrow> (case loads e s of Some v \<Rightarrow> v | None \<Rightarrow> PDict [(''text'', PStr s)]))"

section \<open>The coordinator\<close>

text \<open>
  The state of a behaviour object; both agents keep the path of their log file, the
  coordinator counts the messages it has received, the field agent its cycles. The
  \<open>print\<close> calls of the source write to the console only and are left out, but for the
  \<open>.get\<close> calls inside them, which can raise.
\<close>

record behaviour =
  log_file :: string

record coordinator = behaviour +
  message_count :: nat
  active_missions :: "pyval list"

record field = behaviour +
  agent_name :: string
  cycle_count :: nat

definition newline :: string where
  "newline = [CHR 0x0A]"

definition coordinator_log_entry ::
    "string \<Rightarrow> string \<Rightarrow> string \<Rightarrow> string \<Rightarrow> string \<Rightarrow> string" where
  "coordinator_log_entry timestamp direction performative other_party content =
     newline @ replicate 70 (CHR ''='') @ newline
     @ ''['' @ timestamp @ ''] '' @ direction @ '' - '' @ upper performative @ newline
     @ replicate 70 (CHR ''-'') @ newline
     @ ''From/To: '' @ other_party @ newline
     @ ''Performative: '' @ performative @ newline
     @ ''Content: '' @ content @ newline
     @ replicate 70 (CHR ''='') @ newline"

definition coordinator_log_message ::
    "env \<Rightarrow> coordinator \<Rightarrow> string \<Rightarrow> message \<Rightarrow> string \<Rightarrow> world \<Rightarrow> world" where
  "coordinator_log_message e self direction msg other_party w =
     (let (t, w1) = now e w;
          timestamp = strftime_Ymd_HMS t;
          performative = performative_of msg;
          log_entry = coordinator_log_entry timestamp direction performative other_party
                        (str_opt (body msg))
      in emit (FileAppend (log_file self) log_entry) w1)"

definition dispatch_rescue_team ::
    "env \<Rightarrow> coordinator \<Rightarrow> pyval \<Rightarrow> world \<Rightarrow> exn option \<times> world" where
  "dispatch_rescue_team e self location w =
     (let (t, w1) = now e w;
          msg = (set_metadata ''performative'' REQUEST (Message ''fieldagent1@404.city''))
                  \<lparr>body := Some (dumps e (PDict
                     [(''request'', PStr ''deploy_rescue_team''),
                      (''location'', location),
                      (''priority'', PStr ''high''),
                      (''timestamp'', PStr (strftime_HMS t))]))\<rparr>
      in seq (send e msg w1)
           (\<lambda>w2. (None, coordinator_log_message e self ''SENT'' msg ''fieldagent1'' w2)))"

definition handle_inform ::
    "env \<Rightarrow> coordinator \<Rightarrow> string \<Rightarrow> pyval \<Rightarrow> world \<Rightarrow> exn option \<times> world" where
  "handle_inform e self sender_name content w =
     (case py_get content ''status'' (PStr ''unknown'') of
        Inl x \<Rightarrow> (Some x, w)
      | Inr _ \<Rightarrow>
          if py_has_key content ''disaster_detected'' then
            (case py_get content ''location'' (PStr ''unknown'') of
               Inl x \<Rightarrow> (Some x, w)
             | Inr location \<Rightarrow> dispatch_rescue_team e self location w)
          else (None, w))"

definition handle_request ::
    "env \<Rightarrow> coordinator \<Rightarrow> string \<Rightarrow> pyval \<Rightarrow> world \<Rightarrow> exn option \<times> world" where
  "handle_request e self sender_name content w =
     (case py_get content ''request'' (PStr ''unknown'') of
        Inl x \<Rightarrow> (Some x, w)
      | Inr _ \<Rightarrow>
          (case py_get content ''request'' PNone of
             Inl x \<Rightarrow> (Some x, w)
           | Inr requested \<Rightarrow>
               (let (t, w1) = now e w;
                    response = (set_metadata ''performative'' AGREE
                                  (Message (sender_name @ ''@404.city'')))
                      \<lparr>body := Some (dumps e (PDict
                         [(''agreed_action'', requested),
                          (''timestamp'', PStr (strftime_HMS t))]))\<rparr>
                in seq (send e response w1)
                     (\<lambda>w2. (None, coordinator_log_message e self ''SENT'' response sender_name w2)))))"

definition handle_agree ::
    "env \<Rightarrow> coordinator \<Rightarrow> string \<Rightarrow> pyval \<Rightarrow> world \<Rightarrow> exn option \<times> world" where
  "handle_agree e self sender_name content w =
     (case py_get content ''agreed_action'' PNone of
        Inl x \<Rightarrow> (Some x, w)
      | Inr _ \<Rightarrow> (None, w))"

definition coordinator_handle_incoming_message ::
    "env \<Rightarrow> coordinator \<Rightarrow> message \<Rightarrow> world \<Rightarrow> exn option \<times> world" where
  "coordinator_handle_incoming_message e self msg w =
     (let performative = performative_of msg;
          sender_name = split_at_0 (str_opt (sender msg));
          w1 = coordinator_log_message e self ''RECEIVED'' msg sender_name w;
          content = parse_body e msg
      in if performative = INFORM then handle_inform e self sender_name content w1
         else if performative = REQUEST then handle_request e self sender_name content w1
         else if performative = AGREE then handle_agree e self sender_name content w1
         else (None, w1))"

text \<open>The \<open>for agent_name in field_agents\<close> loop of \<open>send_status_request\<close>.\<close>

fun status_request_loop ::
    "env \<Rightarrow> coordinator \<Rightarrow> string list \<Rightarrow> world \<Rightarrow> exn option \<times> world" where
  "status_request_loop e self [] w = (None, w)"
| "status_request_loop e self (name # names) w =
     (let (t, w1) = now e w;
          msg = (set_metadata ''performative'' REQUEST (Message (name @ ''@404.city'')))
                  \<lparr>body := Some (dumps e (PDict
                     [(''request'', PStr ''status_update''),
                      (''timestamp'', PStr (strftime_HMS t))]))\<rparr>
      in seq (seq (send e msg w1)
                (\<lambda>w2. (None, coordinator_log_message e self ''SENT'' msg name w2)))
           (status_request_loop e self names))"

definition field_agents :: "string list" where
  "field_agents = [''fieldagent1'', ''fieldagent2'']"

definition send_status_request :: "env \<Rightarrow> coordinator \<Rightarrow> world \<Rightarrow> exn option \<times> world" where
  "send_status_request e self w = status_request_loop e self field_agents w"

text \<open>
  One call of the coordinator's \<open>run\<close>; the argument is what \<open>receive\<close> returned, a
  message or \<open>None\<close> after the timeout.
\<close>

definition coordinator_run ::
    "env \<Rightarrow> coordinator \<Rightarrow> message option \<Rightarrow> world \<Rightarrow> exn option \<times> coordinator \<times> world" where
  "coordinator_run e self received w =
     (case received of
        Some msg \<Rightarrow>
          (let self1 = self\<lparr>message_count := message_count self + 1\<rparr>;
               (r, w1) = seq (coordinator_handle_incoming_message e self1 msg w) (sleep 2)
           in (r, self1, w1))
      | None \<Rightarrow>
          (let (r, w1) = seq (if message_count self mod 3 = 0 then send_status_request e self w
                              else (None, w)) (sleep 2)
           in (r, self, w1)))"


section \<open>The field agent\<close>

definition field_log_entry ::
    "string \<Rightarrow> string \<Rightarrow> string \<Rightarrow> string \<Rightarrow> string \<Rightarrow> string \<Rightarrow> string" where
  "field_log_entry name timestamp direction performative other_party content =
     newline @ replicate 70 (CHR ''='') @ newline
     @ ''['' @ timestamp @ ''] '' @ direction @ '' - '' @ upper performative @ newline
     @ replicate 70 (CHR ''-'') @ newline
     @ ''Agent: '' @ name @ newline
     @ ''From/To: '' @ other_party @ newline
     @ ''Performative: '' @ performative @ newline
     @ ''Content: '' @ content @ newline
     @ replicate 70 (CHR ''='') @ newline"

definition field_log_message ::
    "env \<Rightarrow> field \<Rightarrow> string \<Rightarrow> message \<Rightarrow> string \<Rightarrow> world \<Rightarrow> world" where
  "field_log_message e self direction msg other_party w =
     (let (t, w1) = now e w;
          timestamp = strftime_Ymd_HMS t;
          performative = performative_of msg;
          log_entry = field_log_entry (agent_name self) timestamp direction performative
                        other_party (str_opt (body msg))
      in emit (FileAppend (log_file self) log_entry) w1)"

definition send_status_inform :: "env \<Rightarrow> field \<Rightarrow> world \<Rightarrow> exn option \<times> world" where
  "send_status_inform e self w =
     (let (t, w1) = now e w;
          msg = (set_metadata ''performative'' INFORM (Message ''coordinator@404.city''))
                  \<lparr>body := Some (dumps e (PDict
                     [(''status'', PStr ''operational''),
                      (''agent'', PStr (agent_name self)),
                      (''location'', PStr (''Zone-'' @ str_nat (cycle_count self mod 10))),
                      (''resources'', PStr ''available''),
                      (''timestamp'', PStr (strftime_HMS t))]))\<rparr>
      in seq (send e msg w1)
           (\<lambda>w2. (None, field_log_message e self ''SENT'' msg ''coordinator'' w2)))"

definition disasters :: "string list" where
  "disasters = [''Fire'', ''Flood'', ''Earthquake'', ''Building Collapse'']"

definition report_disaster :: "env \<Rightarrow> field \<Rightarrow> world \<Rightarrow> exn option \<times> world" where
  "report_disaster e self w =
     (let disaster_type = disasters ! (cycle_count self mod length disasters);
          (t, w1) = now e w;
          msg = (set_metadata ''performative'' INFORM (Message ''coordinator@404.city''))
                  \<lparr>body := Some (dumps e (PDict
                     [(''status'', PStr ''alert''),
                      (''disaster_detected'', PStr disaster_type),
                      (''severity'', PStr ''high''),
                      (''location'', PStr (''Zone-'' @ str_nat (cycle_count self mod 10))),
                      (''timestamp'', PStr (strftime_HMS t))]))\<rparr>
      in seq (send e msg w1)
           (\<lambda>w2. (None, field_log_message e self ''SENT'' msg ''coordinator'' w2)))"

definition field_handle_incoming_message ::
    "env \<Rightarrow> field \<Rightarrow> message \<Rightarrow> world \<Rightarrow> exn option \<times> world" where
  "field_handle_incoming_message e self msg w =
     (let performative = performative_of msg;
          sender_name = split_at_0 (str_opt (sender msg));
          w1 = field_log_message e self ''RECEIVED'' msg sender_name w;
          content = parse_body e msg
      in if performative = REQUEST then
           (case py_get content ''request'' PNone of
              Inl x \<Rightarrow> (Some x, w1)
            | Inr request_type \<Rightarrow>
                if request_type = PStr ''status_update'' then send_status_inform e self w1
                else if request_type = PStr ''deploy_rescue_team'' then
                  (case py_get content ''location'' PNone of
                     Inl x \<Rightarrow> (Some x, w1)
                   | Inr location \<Rightarrow>
                       (let (t, w2) = now e w1;
                            response = (set_metadata ''performative'' AGREE
                                          (Message (str_opt (sender msg))))
                              \<lparr>body := Some (dumps e (PDict
                                 [(''agreed_action'', PStr ''deploy_rescue_team''),
                                  (''location'', location),
                                  (''eta'', PStr ''5 minutes''),
                                  (''timestamp'', PStr (strftime_HMS t))]))\<rparr>
                        in seq (send e response w2)
                             (\<lambda>w3. (None, field_log_message e self ''SENT'' response sender_name w3))))
                else (None, w1))
         else (None, w1))"

text \<open>One call of the field agent's \<open>run\<close>.\<close>

definition field_run ::
    "env \<Rightarrow> field \<Rightarrow> message option \<Rightarrow> world \<Rightarrow> exn option \<times> field \<times> world" where
  "field_run e self received w =
     (let self1 = self\<lparr>cycle_count := cycle_count self + 1\<rparr>;
          (r, w1) =
            seq (seq (seq (case received of
                             Some msg \<Rightarrow> field_handle_incoming_message e self1 msg w
                           | None \<Rightarrow> (None, w))
                        (\<lambda>w. if cycle_count self1 mod 4 = 0 then send_status_inform e self1 w
                              else (None, w)))
                   (\<lambda>w. if cycle_count self1 mod 5 = 0 then report_disaster e self1 w
                         else (None, w)))
              (sleep 2)
      in (r, self1, w1))"

text \<open>\<open>FieldAgent.setup\<close> constructs the behaviour and leaves the log file as it is.\<close>

definition field_setup :: "string \<Rightarrow> string \<Rightarrow> field" where
  "field_setup path name = \<lparr>log_file = path, agent_name = name, cycle_count = 0\<rparr>"

section \<open>Running an agent\<close>

text \<open>
  The framework calls \<open>run\<close> again and again. What it does when \<open>run\<close> raises is not
  the repository's to decide: \<open>resume\<close> says whether the next call follows or the
  behaviour ends there. The list holds what \<open>receive\<close> returns in each call.
\<close>

fun cycles ::
    "('s \<Rightarrow> message option \<Rightarrow> world \<Rightarrow> exn option \<times> 's \<times> world) \<Rightarrow> bool
      \<Rightarrow> message option list \<Rightarrow> 's \<Rightarrow> world \<Rightarrow> 's \<times> world" where
  "cycles step resume [] s w = (s, w)"
| "cycles step resume (received # rest) s w =
     (case step s received w of
        (None, s1, w1) \<Rightarrow> cycles step resume rest s1 w1
      | (Some x, s1, w1) \<Rightarrow> if resume then cycles step resume rest s1 w1 else (s1, w1))"





section \<open>Reading a trace\<close>

text \<open>
  The messages an agent handed to \<open>send\<close>, in the order of the calls, whether the
  transport accepted them or not; and the events a step added to the trace.
\<close>

definition handed :: "event \<Rightarrow> message option" where
  "handed ev = (case ev of Sent m \<Rightarrow> Some m | Undelivered m \<Rightarrow> Some m | _ \<Rightarrow> None)"

definition outbox :: "event list \<Rightarrow> message list" where
  "outbox evs = List.map_filter handed evs"

definition since :: "world \<Rightarrow> world \<Rightarrow> event list" where
  "since w w' = drop (length (trace w)) (trace w')"

section \<open>The messages and log entries the agents build\<close>

text \<open>
  Names for the messages the source builds inline, as they are once \<open>set_metadata\<close> and
  the assignment to \<open>body\<close> are done, and for the event of writing the log entry of a
  message with the clock reading number \<open>k\<close>; the theorems are stated with them.
\<close>

definition status_request_message :: "env \<Rightarrow> string \<Rightarrow> datetime \<Rightarrow> message" where
  "status_request_message e name t =
     \<lparr>to = name @ ''@404.city'', sender = None,
      metadata = [(''performative'', REQUEST)],
      body = Some (dumps e (PDict
        [(''request'', PStr ''status_update''),
         (''timestamp'', PStr (strftime_HMS t))]))\<rparr>"

definition rescue_request_message :: "env \<Rightarrow> pyval \<Rightarrow> datetime \<Rightarrow> message" where
  "rescue_request_message e location t =
     \<lparr>to = ''fieldagent1@404.city'', sender = None,
      metadata = [(''performative'', REQUEST)],
      body = Some (dumps e (PDict
        [(''request'', PStr ''deploy_rescue_team''),
         (''location'', location),
         (''priority'', PStr ''high''),
         (''timestamp'', PStr (strftime_HMS t))]))\<rparr>"

definition agree_message :: "env \<Rightarrow> string \<Rightarrow> pyval \<Rightarrow> datetime \<Rightarrow> message" where
  "agree_message e sender_name requested t =
     \<lparr>to = sender_name @ ''@404.city'', sender = None,
      metadata = [(''performative'', AGREE)],
      body = Some (dumps e (PDict
        [(''agreed_action'', requested),
         (''timestamp'', PStr (strftime_HMS t))]))\<rparr>"

definition status_inform_message :: "env \<Rightarrow> field \<Rightarrow> datetime \<Rightarrow> message" where
  "status_inform_message e self t =
     \<lparr>to = ''coordinator@404.city'', sender = None,
      metadata = [(''performative'', INFORM)],
      body = Some (dumps e (PDict
        [(''status'', PStr ''operational''),
         (''agent'', PStr (agent_name self)),
         (''location'', PStr (''Zone-'' @ str_nat (cycle_count self mod 10))),
         (''resources'', PStr ''available''),
         (''timestamp'', PStr (strftime_HMS t))]))\<rparr>"

definition disaster_message :: "env \<Rightarrow> field \<Rightarrow> datetime \<Rightarrow> message" where
  "disaster_message e self t =
     \<lparr>to = ''coordinator@404.city'', sender = None,
      metadata = [(''performative'', INFORM)],
      body = Some (dumps e (PDict
        [(''status'', PStr ''alert''),
         (''disaster_detected'', PStr (disasters ! (cycle_count self mod 4))),
         (''severity'', PStr ''high''),
         (''location'', PStr (''Zone-'' @ str_nat (cycle_count self mod 10))),
         (''timestamp'', PStr (strftime_HMS t))]))\<rparr>"

definition deploy_agree_message :: "env \<Rightarrow> message \<Rightarrow> pyval \<Rightarrow> datetime \<Rightarrow> message" where
  "deploy_agree_message e msg location t =
     \<lparr>to = str_opt (sender msg), sender = None,
      metadata = [(''performative'', AGREE)],
      body = Some (dumps e (PDict
        [(''agreed_action'', PStr ''deploy_rescue_team''),
         (''location'', location),
         (''eta'', PStr ''5 minutes''),
         (''timestamp'', PStr (strftime_HMS t))]))\<rparr>"

definition coordinator_entry ::
    "env \<Rightarrow> coordinator \<Rightarrow> string \<Rightarrow> message \<Rightarrow> string \<Rightarrow> nat \<Rightarrow> event" where
  "coordinator_entry e self direction m other_party k =
     FileAppend (log_file self)
       (coordinator_log_entry (strftime_Ymd_HMS (clock e k)) direction
          (performative_of m) other_party (str_opt (body m)))"

definition field_entry ::
    "env \<Rightarrow> field \<Rightarrow> string \<Rightarrow> message \<Rightarrow> string \<Rightarrow> nat \<Rightarrow> event" where
  "field_entry e self direction m other_party k =
     FileAppend (log_file self)
       (field_log_entry (agent_name self) (strftime_Ymd_HMS (clock e k)) direction
          (performative_of m) other_party (str_opt (body m)))"

section \<open>Sends and their log entries\<close>

text \<open>
  The events of a step that sends are well logged when they are pairs of a message the
  transport accepted and, right after it, the entry \<open>P\<close> allows for that message,
  ended by at most one message the transport rejected, which is there exactly when the step
  raised \<open>DeliveryError\<close>. The entry of a sent message is the one \<open>log_message\<close>
  writes with the direction \<open>SENT\<close> and, as the other party, the recipient's name before
  the \<open>@\<close>, at some reading of the clock.
\<close>

fun sends_logged :: "(message \<Rightarrow> event \<Rightarrow> bool) \<Rightarrow> exn option \<Rightarrow> event list \<Rightarrow> bool" where
  "sends_logged P r [] = (r \<noteq> Some DeliveryError)"
| "sends_logged P r [Undelivered m] = (r = Some DeliveryError)"
| "sends_logged P r (Sent m # entry # evs) = (P m entry \<and> sends_logged P r evs)"
| "sends_logged P r evs = False"

definition coordinator_sent_entry :: "env \<Rightarrow> coordinator \<Rightarrow> message \<Rightarrow> event \<Rightarrow> bool" where
  "coordinator_sent_entry e self m ev =
     (\<exists>k. ev = coordinator_entry e self ''SENT'' m (split_at_0 (to m)) k)"

definition field_sent_entry :: "env \<Rightarrow> field \<Rightarrow> message \<Rightarrow> event \<Rightarrow> bool" where
  "field_sent_entry e self m ev =
     (\<exists>k. ev = field_entry e self ''SENT'' m (split_at_0 (to m)) k)"

text \<open>A step is well logged when it only adds to the trace, and what it adds is.\<close>

definition step_logged ::
    "(message \<Rightarrow> event \<Rightarrow> bool) \<Rightarrow> world \<Rightarrow> exn option \<times> world \<Rightarrow> bool" where
  "step_logged P w rw =
     (trace (snd rw) = trace w @ since w (snd rw)
      \<and> sends_logged P (fst rw) (since w (snd rw)))"

section \<open>Two runs side by side\<close>



section \<open>A sample environment\<close>

text \<open>
  Concrete surroundings for the examples: a clock that advances one second per reading, a
  transport that accepts every message, and the text \<open>json.dumps\<close> gives for values
  whose strings need no escaping. \<open>sample_loads\<close> gives what \<open>json.loads\<close> gives on
  the texts of the payloads listed, and stands for a parse failure on any other text.
\<close>

fun json_text :: "pyval \<Rightarrow> string"
  and json_elements :: "pyval list \<Rightarrow> string"
  and json_members :: "(string \<times> pyval) list \<Rightarrow> string" where
  "json_text PNone = ''null''"
| "json_text (PBool b) = (if b then ''true'' else ''false'')"
| "json_text (PInt i) = (if i < 0 then CHR ''-'' # str_nat (nat (- i)) else str_nat (nat i))"
| "json_text (PFloat s) = s"
| "json_text (PStr s) = [CHR 0x22] @ s @ [CHR 0x22]"
| "json_text (PList vs) = ''['' @ json_elements vs @ '']''"
| "json_text (PDict kvs) = ''{'' @ json_members kvs @ ''}''"
| "json_elements [] = []"
| "json_elements [v] = json_text v"
| "json_elements (v # v' # vs) = json_text v @ '', '' @ json_elements (v' # vs)"
| "json_members [] = []"
| "json_members [(k, v)] = [CHR 0x22] @ k @ [CHR 0x22] @ '': '' @ json_text v"
| "json_members ((k, v) # kv # kvs) =
     [CHR 0x22] @ k @ [CHR 0x22] @ '': '' @ json_text v @ '', '' @ json_members (kv # kvs)"

definition status_update_payload :: pyval where
  "status_update_payload = PDict [(''request'', PStr ''status_update'')]"

definition deploy_payload :: pyval where
  "deploy_payload =
     PDict [(''request'', PStr ''deploy_rescue_team''), (''location'', PStr ''Zone-7'')]"

definition fire_payload :: pyval where
  "fire_payload =
     PDict [(''status'', PStr ''alert''), (''disaster_detected'', PStr ''Fire''),
            (''location'', PStr ''Zone-3'')]"

definition sample_payloads :: "pyval list" where
  "sample_payloads = [PList [PInt 1], status_update_payload, deploy_payload, fire_payload]"

definition sample_loads :: "string \<Rightarrow> pyval option" where
  "sample_loads s = find (\<lambda>v. json_text v = s) sample_payloads"

definition sample_env :: env where
  "sample_env = \<lparr>clock = (\<lambda>k. Datetime 2024 5 17 9 30 k), delivers = (\<lambda>k. True),
                  loads = sample_loads, dumps = json_text\<rparr>"

text \<open>
  The same surroundings with a transport that rejects every message, and with a clock that
  stands still; a world in which something has happened already, and one in which nothing
  has.
\<close>

definition rejecting_env :: env where
  "rejecting_env = sample_env\<lparr>delivers := (\<lambda>k. False)\<rparr>"



definition fresh_world :: world where
  "fresh_world = \<lparr>trace = [], now_calls = 0, send_calls = 0\<rparr>"

definition sample_coordinator :: coordinator where
  "sample_coordinator =
     \<lparr>log_file = ''coordinator_messages.log'', message_count = 0, active_missions = []\<rparr>"

definition sample_field :: field where
  "sample_field = field_setup ''field_agent_messages.log'' ''FieldAgent1''"

text \<open>A message as an agent receives it: sender, performative and body.\<close>

definition received_message :: "string \<Rightarrow> string \<Rightarrow> string \<Rightarrow> string \<Rightarrow> message" where
  "received_message recipient from performative text =
     \<lparr>to = recipient, sender = Some from, metadata = [(''performative'', performative)],
      body = Some text\<rparr>"

definition fire_report :: message where
  "fire_report =
     received_message ''coordinator@404.city'' ''fieldagent2@404.city'' INFORM
       (json_text fire_payload)"

definition field_request :: message where
  "field_request =
     received_message ''coordinator@404.city'' ''fieldagent1@404.city'' REQUEST
       (json_text status_update_payload)"

definition foreign_request :: message where
  "foreign_request =
     received_message ''coordinator@404.city'' ''scout@example.org'' REQUEST
       (json_text status_update_payload)"

definition deploy_request :: message where
  "deploy_request =
     received_message ''fieldagent1@404.city'' ''coordinator@404.city'' REQUEST
       (json_text deploy_payload)"

definition list_report :: message where
  "list_report =
     received_message ''coordinator@404.city'' ''fieldagent2@404.city'' INFORM ''[1]''"

section \<open>Facts about the operations\<close>

lemmas Performative_defs =
  INFORM_def REQUEST_def PROPOSE_def ACCEPT_def REFUSE_def AGREE_def CONFIRM_def

lemmas world_ops = now_def emit_def send_def sleep_def seq_def

lemmas message_ops = Message_def set_metadata_def performative_of_def

lemmas sample_defs =
  sample_env_def sample_loads_def sample_payloads_def status_update_payload_def
  deploy_payload_def fire_payload_def fresh_world_def sample_coordinator_def sample_field_def
  field_setup_def received_message_def fire_report_def field_request_def foreign_request_def
  deploy_request_def list_report_def rejecting_env_def

lemma outbox_simps [simp]:
  "outbox [] = []"
  "outbox (Sent m # evs) = m # outbox evs"
  "outbox (Undelivered m # evs) = m # outbox evs"
  "outbox (FileAppend p s # evs) = outbox evs"
  "outbox (FileWrite p s # evs) = outbox evs"
  "outbox (Slept n # evs) = outbox evs"
  by (simp_all add: outbox_def handed_def List.map_filter_simps)

lemma outbox_append [simp]: "outbox (xs @ ys) = outbox xs @ outbox ys"
  by (simp add: outbox_def List.map_filter_def)

lemma performative_of_built [simp]:
  "performative_of (status_request_message e name t) = REQUEST"
  "performative_of (rescue_request_message e location t) = REQUEST"
  "performative_of (agree_message e name requested t) = AGREE"
  "performative_of (status_inform_message e self t) = INFORM"
  "performative_of (disaster_message e self t) = INFORM"
  "performative_of (deploy_agree_message e msg location t) = AGREE"
  by (simp_all add: performative_of_def status_request_message_def rescue_request_message_def
      agree_message_def status_inform_message_def disaster_message_def deploy_agree_message_def)

lemma performative_distinct [simp]:
  "INFORM \<noteq> AGREE" "AGREE \<noteq> INFORM" "INFORM \<noteq> REQUEST" "REQUEST \<noteq> INFORM"
  "REQUEST \<noteq> AGREE" "AGREE \<noteq> REQUEST"
  by (simp_all add: Performative_defs)

lemma outbox_entry [simp]:
  "outbox (coordinator_entry e c d m p k # evs) = outbox evs"
  "outbox (field_entry e f d m p k # evs) = outbox evs"
  by (simp_all add: coordinator_entry_def field_entry_def)

lemma seq_simps [simp]:
  "seq (None, w) k = k w"
  "seq (Some x, w) k = (Some x, w)"
  by (simp_all add: seq_def)

lemma since_append [simp]: "since w (w'\<lparr>trace := trace w @ evs\<rparr>) = evs"
  by (simp add: since_def)

subsection \<open>The coordinator's operations, written out\<close>

lemma coordinator_log_message_eq:
  "coordinator_log_message e self direction m other_party w =
     w\<lparr>now_calls := Suc (now_calls w),
       trace := trace w @ [coordinator_entry e self direction m other_party (now_calls w)]\<rparr>"
  by (simp add: coordinator_log_message_def now_def emit_def coordinator_entry_def)

lemma dispatch_rescue_team_eq:
  "dispatch_rescue_team e self location w =
     (let m = rescue_request_message e location (clock e (now_calls w))
      in if delivers e (send_calls w) then
           (None, w\<lparr>send_calls := Suc (send_calls w), now_calls := Suc (Suc (now_calls w)),
                    trace := trace w @
                      [Sent m, coordinator_entry e self ''SENT'' m ''fieldagent1''
                                 (Suc (now_calls w))]\<rparr>)
         else
           (Some DeliveryError,
            w\<lparr>send_calls := Suc (send_calls w), now_calls := Suc (now_calls w),
              trace := trace w @ [Undelivered m]\<rparr>))"
  by (simp add: dispatch_rescue_team_def coordinator_log_message_eq now_def emit_def send_def
      message_ops rescue_request_message_def Let_def)

lemma handle_request_eq:
  "handle_request e self name (PDict kvs) w =
     (let m = agree_message e name (case map_of kvs ''request'' of Some v \<Rightarrow> v | None \<Rightarrow> PNone)
                (clock e (now_calls w))
      in if delivers e (send_calls w) then
           (None, w\<lparr>send_calls := Suc (send_calls w), now_calls := Suc (Suc (now_calls w)),
                    trace := trace w @
                      [Sent m, coordinator_entry e self ''SENT'' m name (Suc (now_calls w))]\<rparr>)
         else
           (Some DeliveryError,
            w\<lparr>send_calls := Suc (send_calls w), now_calls := Suc (now_calls w),
              trace := trace w @ [Undelivered m]\<rparr>))"
  by (simp add: handle_request_def coordinator_log_message_eq now_def emit_def send_def
      message_ops agree_message_def Let_def py_get_def)

lemma send_status_request_eq:
  "send_status_request e self w =
     (let m1 = status_request_message e ''fieldagent1'' (clock e (now_calls w));
          m2 = status_request_message e ''fieldagent2'' (clock e (Suc (Suc (now_calls w))))
      in if delivers e (send_calls w) then
           if delivers e (Suc (send_calls w)) then
             (None, w\<lparr>send_calls := Suc (Suc (send_calls w)),
                      now_calls := Suc (Suc (Suc (Suc (now_calls w)))),
                      trace := trace w @
                        [Sent m1,
                         coordinator_entry e self ''SENT'' m1 ''fieldagent1'' (Suc (now_calls w)),
                         Sent m2,
                         coordinator_entry e self ''SENT'' m2 ''fieldagent2''
                           (Suc (Suc (Suc (now_calls w))))]\<rparr>)
           else
             (Some DeliveryError,
              w\<lparr>send_calls := Suc (Suc (send_calls w)),
                now_calls := Suc (Suc (Suc (now_calls w))),
                trace := trace w @
                  [Sent m1,
                   coordinator_entry e self ''SENT'' m1 ''fieldagent1'' (Suc (now_calls w)),
                   Undelivered m2]\<rparr>)
         else
           (Some DeliveryError,
            w\<lparr>send_calls := Suc (send_calls w), now_calls := Suc (now_calls w),
              trace := trace w @ [Undelivered m1]\<rparr>))"
  by (simp add: send_status_request_def field_agents_def coordinator_log_message_eq now_def
      emit_def send_def message_ops status_request_message_def Let_def)

subsection \<open>The field agent's operations, written out\<close>

lemma field_log_message_eq:
  "field_log_message e self direction m other_party w =
     w\<lparr>now_calls := Suc (now_calls w),
       trace := trace w @ [field_entry e self direction m other_party (now_calls w)]\<rparr>"
  by (simp add: field_log_message_def now_def emit_def field_entry_def)

lemma send_status_inform_eq:
  "send_status_inform e self w =
     (let m = status_inform_message e self (clock e (now_calls w))
      in if delivers e (send_calls w) then
           (None, w\<lparr>send_calls := Suc (send_calls w), now_calls := Suc (Suc (now_calls w)),
                    trace := trace w @
                      [Sent m, field_entry e self ''SENT'' m ''coordinator'' (Suc (now_calls w))]\<rparr>)
         else
           (Some DeliveryError,
            w\<lparr>send_calls := Suc (send_calls w), now_calls := Suc (now_calls w),
              trace := trace w @ [Undelivered m]\<rparr>))"
  by (simp add: send_status_inform_def field_log_message_eq now_def emit_def send_def
      message_ops status_inform_message_def Let_def)

lemma report_disaster_eq:
  "report_disaster e self w =
     (let m = disaster_message e self (clock e (now_calls w))
      in if delivers e (send_calls w) then
           (None, w\<lparr>send_calls := Suc (send_calls w), now_calls := Suc (Suc (now_calls w)),
                    trace := trace w @
                      [Sent m, field_entry e self ''SENT'' m ''coordinator'' (Suc (now_calls w))]\<rparr>)
         else
           (Some DeliveryError,
            w\<lparr>send_calls := Suc (send_calls w), now_calls := Suc (now_calls w),
              trace := trace w @ [Undelivered m]\<rparr>))"
  by (simp add: report_disaster_def field_log_message_eq now_def emit_def send_def
      message_ops disaster_message_def Let_def disasters_def)

lemma field_handle_deploy_eq:
  assumes "performative_of msg = REQUEST"
    and "parse_body e msg = PDict kvs"
    and "map_of kvs ''request'' = Some (PStr ''deploy_rescue_team'')"
  shows "field_handle_incoming_message e self msg w =
     (let party = split_at_0 (str_opt (sender msg));
          reply = deploy_agree_message e msg
                    (case map_of kvs ''location'' of Some v \<Rightarrow> v | None \<Rightarrow> PNone)
                    (clock e (Suc (now_calls w)))
      in if delivers e (send_calls w) then
           (None, w\<lparr>send_calls := Suc (send_calls w), now_calls := Suc (Suc (Suc (now_calls w))),
                    trace := trace w @
                      [field_entry e self ''RECEIVED'' msg party (now_calls w),
                       Sent reply,
                       field_entry e self ''SENT'' reply party (Suc (Suc (now_calls w)))]\<rparr>)
         else
           (Some DeliveryError,
            w\<lparr>send_calls := Suc (send_calls w), now_calls := Suc (Suc (now_calls w)),
              trace := trace w @
                [field_entry e self ''RECEIVED'' msg party (now_calls w), Undelivered reply]\<rparr>))"
  using assms
  by (simp add: field_handle_incoming_message_def field_log_message_eq now_def emit_def send_def
      message_ops deploy_agree_message_def Let_def py_get_def)

text \<open>
  The part of the field agent's \<open>run\<close> that follows the handling of a message: the two
  periodic sends and the sleep.
\<close>

lemma field_run_eq:
  "field_run e self received w =
     (let self1 = self\<lparr>cycle_count := Suc (cycle_count self)\<rparr>;
          h = (case received of
                 Some msg \<Rightarrow> field_handle_incoming_message e self1 msg w
               | None \<Rightarrow> (None, w));
          r = seq h (\<lambda>w. seq (if Suc (cycle_count self) mod 4 = 0
                                then send_status_inform e self1 w else (None, w))
                      (\<lambda>w. seq (if Suc (cycle_count self) mod 5 = 0
                                  then report_disaster e self1 w else (None, w))
                              (sleep 2)))
      in (fst r, self1, snd r))"
  by (simp add: field_run_def Let_def seq_def split: prod.splits option.splits)

subsection \<open>Every step logs what it sends\<close>




lemma step_logged_return [simp]: "step_logged P w (None, w)"
  by (simp add: step_logged_def since_def)

lemma step_logged_raise [simp]: "step_logged P w (Some AttributeError, w)"
  by (simp add: step_logged_def since_def)

lemma split_at_0_local [simp]: "split_at_0 (split_at_0 s @ CHR ''@'' # t) = split_at_0 s"
  unfolding split_at_0_def by (induction s) simp_all

lemma split_at_0_names [simp]:
  "split_at_0 ''fieldagent1@404.city'' = ''fieldagent1''"
  "split_at_0 ''fieldagent2@404.city'' = ''fieldagent2''"
  "split_at_0 ''coordinator@404.city'' = ''coordinator''"
  by (simp_all add: split_at_0_def)

lemma to_built [simp]:
  "to (status_request_message e name t) = name @ ''@404.city''"
  "to (rescue_request_message e location t) = ''fieldagent1@404.city''"
  "to (agree_message e name requested t) = name @ ''@404.city''"
  "to (status_inform_message e f t) = ''coordinator@404.city''"
  "to (disaster_message e f t) = ''coordinator@404.city''"
  "to (deploy_agree_message e msg location t) = str_opt (sender msg)"
  by (simp_all add: status_request_message_def rescue_request_message_def
      agree_message_def status_inform_message_def disaster_message_def deploy_agree_message_def)

lemma sent_entryI [simp]:
  "p = split_at_0 (to m) \<Longrightarrow>
     coordinator_sent_entry e self m (coordinator_entry e self ''SENT'' m p k)"
  "p = split_at_0 (to m) \<Longrightarrow> field_sent_entry e f m (field_entry e f ''SENT'' m p k)"
  by (auto simp add: coordinator_sent_entry_def field_sent_entry_def)






lemma entry_self [simp]:
  "coordinator_entry e (self\<lparr>message_count := n\<rparr>) = coordinator_entry e self"
  "field_entry e (f\<lparr>cycle_count := c\<rparr>) = field_entry e f"
  by (simp_all add: fun_eq_iff coordinator_entry_def field_entry_def)

lemma sent_entry_self [simp]:
  "coordinator_sent_entry e (self\<lparr>message_count := n\<rparr>) = coordinator_sent_entry e self"
  "field_sent_entry e (f\<lparr>cycle_count := c\<rparr>) = field_sent_entry e f"
  by (simp_all add: fun_eq_iff coordinator_sent_entry_def field_sent_entry_def)









lemma field_run_None:
  "field_run e self None w =
     (let self1 = self\<lparr>cycle_count := Suc (cycle_count self)\<rparr>;
          rw = seq (seq (seq (None, w)
                      (\<lambda>w. if cycle_count self1 mod 4 = 0 then send_status_inform e self1 w
                            else (None, w)))
                 (\<lambda>w. if cycle_count self1 mod 5 = 0 then report_disaster e self1 w
                       else (None, w)))
            (sleep 2)
      in (fst rw, self1, snd rw))"
  by (simp add: field_run_def Let_def split: prod.splits)

lemma field_run_Some:
  "field_run e self (Some msg) w =
     (let self1 = self\<lparr>cycle_count := Suc (cycle_count self)\<rparr>;
          rw = seq (seq (seq (field_handle_incoming_message e self1 msg w)
                      (\<lambda>w. if cycle_count self1 mod 4 = 0 then send_status_inform e self1 w
                            else (None, w)))
                 (\<lambda>w. if cycle_count self1 mod 5 = 0 then report_disaster e self1 w
                       else (None, w)))
            (sleep 2)
      in (fst rw, self1, snd rw))"
  by (simp add: field_run_def Let_def split: prod.splits)






lemmas run_eval =
  coordinator_run_def field_run_def coordinator_handle_incoming_message_def
  field_handle_incoming_message_def handle_inform_def handle_agree_def handle_request_eq
  dispatch_rescue_team_eq send_status_request_eq send_status_inform_eq report_disaster_eq
  coordinator_log_message_eq field_log_message_eq py_get_def py_has_key_def parse_body_def
  Let_def sleep_def emit_def since_def

lemmas sample_eval =
  sample_defs performative_of_def Performative_defs str_nat.simps digit_def
  pad2_def str_opt_def split_at_0_def coordinator_entry_def field_entry_def

subsection \<open>Two runs in surroundings that answer alike\<close>



























section \<open>The coordinator answers a disaster report\<close>

text \<open>
  Claim C2. When the coordinator receives an INFORM whose body parses to a dictionary with
  the key \<open>disaster_detected\<close>, the messages it hands to the transport in that call of
  \<open>run\<close> are exactly one REQUEST: the action \<open>deploy_rescue_team\<close> (under the key
  \<open>request\<close>), the reported location or \<open>unknown\<close> when the report has none, priority
  \<open>high\<close>, and the recipient \<open>fieldagent1@404.city\<close> whatever the location is.
\<close>

theorem inform_disaster_dispatch:
  assumes "performative_of msg = INFORM"
    and "body msg = Some s"
    and "loads e s = Some (PDict kvs)"
    and "''disaster_detected'' \<in> fst ` set kvs"
  shows "outbox (since w (snd (snd (coordinator_run e self (Some msg) w)))) =
           [\<lparr>to = ''fieldagent1@404.city'', sender = None,
             metadata = [(''performative'', REQUEST)],
             body = Some (dumps e (PDict
               [(''request'', PStr ''deploy_rescue_team''),
                (''location'',
                   case map_of kvs ''location'' of Some v \<Rightarrow> v | None \<Rightarrow> PStr ''unknown''),
                (''priority'', PStr ''high''),
                (''timestamp'', PStr (strftime_HMS (clock e (Suc (now_calls w)))))]))\<rparr>]"
  using assms
  by (simp add: coordinator_run_def coordinator_handle_incoming_message_def handle_inform_def
      parse_body_def py_get_def py_has_key_def world_ops coordinator_log_message_def Let_def
      dispatch_rescue_team_def since_def message_ops split: prod.splits)

theorem inform_disaster_dispatch_witness:
  "performative_of fire_report = INFORM
   \<and> body fire_report = Some (json_text fire_payload)
   \<and> loads sample_env (json_text fire_payload) = Some fire_payload
   \<and> outbox (since fresh_world
        (snd (snd (coordinator_run sample_env sample_coordinator (Some fire_report) fresh_world)))) =
       [\<lparr>to = ''fieldagent1@404.city'', sender = None,
         metadata = [(''performative'', ''request'')],
         body = Some (json_text (PDict
           [(''request'', PStr ''deploy_rescue_team''),
            (''location'', PStr ''Zone-3''),
            (''priority'', PStr ''high''),
            (''timestamp'', PStr ''09:30:01'')]))\<rparr>]"
  using inform_disaster_dispatch [of fire_report "json_text fire_payload" sample_env
      "[(''status'', PStr ''alert''), (''disaster_detected'', PStr ''Fire''),
        (''location'', PStr ''Zone-3'')]" fresh_world sample_coordinator]
  by (simp add: sample_defs performative_of_def Performative_defs pad2_def str_nat.simps
      digit_def)

section \<open>The field agent agrees to a deployment\<close>

text \<open>
  Claim C6. When a field agent receives a REQUEST whose payload asks for
  \<open>deploy_rescue_team\<close> (under the key \<open>request\<close>), the messages with performative
  AGREE that it hands to the transport in that call of \<open>run\<close> are exactly one: its
  payload carries the requested location (\<open>None\<close> when the request names none) and the
  eta \<open>5 minutes\<close>, and its recipient is the sender of the request.
\<close>

theorem deploy_request_agreed:
  assumes "performative_of msg = REQUEST"
    and "parse_body e msg = PDict kvs"
    and "map_of kvs ''request'' = Some (PStr ''deploy_rescue_team'')"
  shows "filter (\<lambda>m. performative_of m = AGREE)
           (outbox (since w (snd (snd (field_run e self (Some msg) w))))) =
           [\<lparr>to = str_opt (sender msg), sender = None,
             metadata = [(''performative'', AGREE)],
             body = Some (dumps e (PDict
               [(''agreed_action'', PStr ''deploy_rescue_team''),
                (''location'', case map_of kvs ''location'' of Some v \<Rightarrow> v | None \<Rightarrow> PNone),
                (''eta'', PStr ''5 minutes''),
                (''timestamp'', PStr (strftime_HMS (clock e (Suc (now_calls w)))))]))\<rparr>]"
proof -
  let ?self1 = "self\<lparr>cycle_count := Suc (cycle_count self)\<rparr>"
  let ?reply = "deploy_agree_message e msg
                  (case map_of kvs ''location'' of Some v \<Rightarrow> v | None \<Rightarrow> PNone)
                  (clock e (Suc (now_calls w)))"
  note h = field_handle_deploy_eq [OF assms, of ?self1 w]
  have "filter (\<lambda>m. performative_of m = AGREE)
          (outbox (since w (snd (snd (field_run e self (Some msg) w))))) = [?reply]"
    by (simp add: field_run_eq h Let_def send_status_inform_eq report_disaster_eq sleep_def
        emit_def since_def)
  then show ?thesis
    by (simp add: deploy_agree_message_def)
qed

theorem deploy_request_agreed_witness:
  "performative_of deploy_request = REQUEST
   \<and> parse_body sample_env deploy_request = deploy_payload
   \<and> filter (\<lambda>m. performative_of m = AGREE)
        (outbox (since fresh_world
           (snd (snd (field_run sample_env sample_field (Some deploy_request) fresh_world))))) =
       [\<lparr>to = ''coordinator@404.city'', sender = None,
         metadata = [(''performative'', ''agree'')],
         body = Some (json_text (PDict
           [(''agreed_action'', PStr ''deploy_rescue_team''),
            (''location'', PStr ''Zone-7''),
            (''eta'', PStr ''5 minutes''),
            (''timestamp'', PStr ''09:30:01'')]))\<rparr>]"
  using deploy_request_agreed [of deploy_request sample_env
      "[(''request'', PStr ''deploy_rescue_team''), (''location'', PStr ''Zone-7'')]"
      fresh_world sample_field]
  by (simp add: sample_defs performative_of_def parse_body_def Performative_defs pad2_def
      str_nat.simps digit_def str_opt_def)

section \<open>The coordinator agrees to every request\<close>

text \<open>
  Claim C7, as the code has it. When the coordinator receives a REQUEST whose payload is a
  dictionary (parsed, or the fallback with the key \<open>text\<close>), the messages it hands to the
  transport in that call of \<open>run\<close> are exactly one AGREE; its \<open>agreed_action\<close> is the
  value under the key \<open>request\<close> (\<open>None\<close> when there is none), it carries a timestamp,
  and its recipient is the part of the sender's address before the first \<open>@\<close> followed
  by \<open>@404.city\<close>, which is the sender itself for a bare address of that domain. The
  coordinator never refuses.
\<close>

theorem request_agreed:
  assumes "performative_of msg = REQUEST"
    and "parse_body e msg = PDict kvs"
  shows "outbox (since w (snd (snd (coordinator_run e self (Some msg) w)))) =
           [\<lparr>to = split_at_0 (str_opt (sender msg)) @ ''@404.city'', sender = None,
             metadata = [(''performative'', AGREE)],
             body = Some (dumps e (PDict
               [(''agreed_action'', case map_of kvs ''request'' of Some v \<Rightarrow> v | None \<Rightarrow> PNone),
                (''timestamp'', PStr (strftime_HMS (clock e (Suc (now_calls w)))))]))\<rparr>]"
  using assms
  by (simp add: coordinator_run_def coordinator_handle_incoming_message_def handle_request_eq
      coordinator_log_message_eq Let_def sleep_def emit_def since_def agree_message_def
      split: prod.splits)

theorem request_agreed_witness:
  "performative_of field_request = REQUEST
   \<and> parse_body sample_env field_request = status_update_payload
   \<and> sender field_request = Some ''fieldagent1@404.city''
   \<and> outbox (since fresh_world
        (snd (snd (coordinator_run sample_env sample_coordinator (Some field_request)
           fresh_world)))) =
       [\<lparr>to = ''fieldagent1@404.city'', sender = None,
         metadata = [(''performative'', ''agree'')],
         body = Some (json_text (PDict
           [(''agreed_action'', PStr ''status_update''),
            (''timestamp'', PStr ''09:30:01'')]))\<rparr>]"
  using request_agreed [of field_request sample_env
      "[(''request'', PStr ''status_update'')]" fresh_world sample_coordinator]
  by (simp add: sample_defs performative_of_def parse_body_def Performative_defs pad2_def
      str_nat.simps digit_def str_opt_def split_at_0_def)

text \<open>
  Claim C7 as it is written, with the AGREE addressed to the requester, fails for a
  requester outside the domain \<open>404.city\<close>: the reply to \<open>scout@example.org\<close> goes to
  \<open>scout@404.city\<close>.
\<close>

theorem request_agreed_counterexample:
  "sender foreign_request = Some ''scout@example.org''
   \<and> performative_of foreign_request = REQUEST
   \<and> map to (outbox (since fresh_world
        (snd (snd (coordinator_run sample_env sample_coordinator (Some foreign_request)
           fresh_world))))) = [''scout@404.city'']
   \<and> ''scout@404.city'' \<noteq> ''scout@example.org''"
  by (simp add: coordinator_run_def coordinator_handle_incoming_message_def handle_request_eq
      coordinator_log_message_eq Let_def sleep_def emit_def since_def agree_message_def
      sample_defs performative_of_def parse_body_def Performative_defs str_opt_def
      split_at_0_def str_nat.simps digit_def)

section \<open>A status request is answered to the coordinator\<close>

text \<open>
  Claim C10. When a field agent handles a REQUEST whose payload asks for
  \<open>status_update\<close>, the one message it hands to the transport is the status INFORM, and
  its recipient is the fixed address \<open>coordinator@404.city\<close>, whoever sent the request.
\<close>

theorem status_request_answered_to_coordinator:
  assumes "performative_of msg = REQUEST"
    and "parse_body e msg = PDict kvs"
    and "map_of kvs ''request'' = Some (PStr ''status_update'')"
  shows "outbox (since w (snd (field_handle_incoming_message e self msg w))) =
           [\<lparr>to = ''coordinator@404.city'', sender = None,
             metadata = [(''performative'', INFORM)],
             body = Some (dumps e (PDict
               [(''status'', PStr ''operational''),
                (''agent'', PStr (agent_name self)),
                (''location'', PStr (''Zone-'' @ str_nat (cycle_count self mod 10))),
                (''resources'', PStr ''available''),
                (''timestamp'', PStr (strftime_HMS (clock e (Suc (now_calls w)))))]))\<rparr>]"
  using assms
  by (simp add: field_handle_incoming_message_def send_status_inform_eq field_log_message_eq
      py_get_def Let_def since_def status_inform_message_def)

theorem status_request_answered_to_coordinator_witness:
  "performative_of foreign_request = REQUEST
   \<and> parse_body sample_env foreign_request = status_update_payload
   \<and> sender foreign_request = Some ''scout@example.org''
   \<and> outbox (since fresh_world
        (snd (field_handle_incoming_message sample_env sample_field foreign_request
           fresh_world))) =
       [\<lparr>to = ''coordinator@404.city'', sender = None,
         metadata = [(''performative'', ''inform'')],
         body = Some (json_text (PDict
           [(''status'', PStr ''operational''),
            (''agent'', PStr ''FieldAgent1''),
            (''location'', PStr ''Zone-0''),
            (''resources'', PStr ''available''),
            (''timestamp'', PStr ''09:30:01'')]))\<rparr>]"
  using status_request_answered_to_coordinator [of foreign_request sample_env
      "[(''request'', PStr ''status_update'')]" fresh_world sample_field]
  by (simp add: sample_defs performative_of_def parse_body_def Performative_defs pad2_def
      str_nat.simps digit_def)

section \<open>A failure leaves the loop\<close>




section \<open>Every message is logged\<close>



section \<open>The coordinator asks for status while idle\<close>

text \<open>
  Claim C1, as the code has it. In a call of the coordinator's \<open>run\<close> in which no
  message arrives, status-update REQUESTs are sent exactly when the number of messages
  received so far is a multiple of 3; the coordinator does not count its calls of \<open>run\<close>.
  It then sends to \<open>fieldagent1@404.city\<close> and, unless the transport rejected that
  message, to \<open>fieldagent2@404.city\<close>.
\<close>

theorem idle_status_requests:
  "outbox (since w (snd (snd (coordinator_run e self None w)))) =
     (if message_count self mod 3 = 0 then
        status_request_message e ''fieldagent1'' (clock e (now_calls w)) #
        (if delivers e (send_calls w) then
           [status_request_message e ''fieldagent2'' (clock e (Suc (Suc (now_calls w))))]
         else [])
      else [])"
  by (simp add: coordinator_run_def send_status_request_eq Let_def sleep_def emit_def since_def)

theorem idle_status_requests_witness:
  "message_count (sample_coordinator\<lparr>message_count := 4\<rparr>) mod 3 \<noteq> 0
   \<and> outbox (since fresh_world
        (snd (snd (coordinator_run sample_env (sample_coordinator\<lparr>message_count := 4\<rparr>)
           None fresh_world)))) = []
   \<and> message_count (sample_coordinator\<lparr>message_count := 3\<rparr>) mod 3 = 0
   \<and> map to (outbox (since fresh_world
        (snd (snd (coordinator_run sample_env (sample_coordinator\<lparr>message_count := 3\<rparr>)
           None fresh_world))))) = [''fieldagent1@404.city'', ''fieldagent2@404.city'']"
  using idle_status_requests [of fresh_world sample_env "sample_coordinator\<lparr>message_count := 4\<rparr>"]
    idle_status_requests [of fresh_world sample_env "sample_coordinator\<lparr>message_count := 3\<rparr>"]
  by (simp add: sample_defs)

text \<open>
  Claim C1 as it is written, with the requests sent on every third call of \<open>run\<close> and
  on no other, fails both ways: a coordinator that has received nothing sends the two
  requests in its first call, and one that received a message in its first call and none
  after sends nothing in its third.
\<close>

theorem idle_status_requests_counterexample:
  "message_count sample_coordinator = 0
   \<and> map to (outbox (since fresh_world
        (snd (snd (coordinator_run sample_env sample_coordinator None fresh_world))))) =
       [''fieldagent1@404.city'', ''fieldagent2@404.city'']
   \<and> (case cycles (coordinator_run sample_env) False [Some fire_report, None]
              sample_coordinator fresh_world of
         (self2, w2) \<Rightarrow>
           message_count self2 = 1
           \<and> outbox (since w2 (snd (snd (coordinator_run sample_env self2 None w2)))) = [])"
  by (simp add: run_eval sample_eval status_request_message_def)

section \<open>Payloads that are not dictionaries\<close>

text \<open>A body that \<open>json.loads\<close> rejects becomes the dictionary with the one key \<open>text\<close>.\<close>

lemma parse_body_fallback:
  "body msg = Some s \<Longrightarrow> loads e s = None \<Longrightarrow> parse_body e msg = PDict [(''text'', PStr s)]"
  by (simp add: parse_body_def)

text \<open>
  Claim C3 does not hold of the code. Parsing never raises, and a body that fails to parse
  becomes the dictionary with the one key \<open>text\<close>; but a body that parses to something
  else than a dictionary, such as the list \<open>[1]\<close>, is passed on as it is, and the first
  \<open>.get\<close> of the handler raises \<open>AttributeError\<close>.
\<close>

theorem list_payload_raises:
  "loads sample_env ''[1]'' = Some (PList [PInt 1])
   \<and> parse_body sample_env list_report = PList [PInt 1]
   \<and> fst (coordinator_run sample_env sample_coordinator (Some list_report) fresh_world) =
       Some AttributeError"
  by (simp add: run_eval sample_eval split: prod.splits)

section \<open>The field agent's periodic reports\<close>

text \<open>
  Claim C5, as the code has it. In a call of the field agent's \<open>run\<close> in which nothing
  raises, what follows the handling of the received message, if there is one, is exactly:
  a status INFORM and its log entry when the cycle count, once incremented, is a multiple
  of 4; then a disaster INFORM and its log entry when it is a multiple of 5, the disaster
  being the entry of the fixed list at the cycle count modulo 4 and the location the zone
  of the cycle count modulo 10; then the sleep. Both reports are sent, each with its own
  log entry, when both conditions hold. The handling itself also sends a status INFORM when
  the message is a request for one, whatever the cycle count.
\<close>

theorem periodic_informs:
  assumes "fst (field_run e self received w) = None"
  shows "let self1 = self\<lparr>cycle_count := Suc (cycle_count self)\<rparr>;
             w1 = (case received of
                     None \<Rightarrow> w
                   | Some msg \<Rightarrow> snd (field_handle_incoming_message e self1 msg w));
             k = now_calls w1;
             status = status_inform_message e self1 (clock e k);
             j = (if cycle_count self1 mod 4 = 0 then Suc (Suc k) else k);
             disaster = disaster_message e self1 (clock e j)
         in fst (snd (field_run e self received w)) = self1
            \<and> since w1 (snd (snd (field_run e self received w))) =
                (if cycle_count self1 mod 4 = 0
                 then [Sent status, field_entry e self ''SENT'' status ''coordinator'' (Suc k)]
                 else [])
                @ (if cycle_count self1 mod 5 = 0
                   then [Sent disaster,
                         field_entry e self ''SENT'' disaster ''coordinator'' (Suc j)]
                   else [])
                @ [Slept 2]"
proof -
  let ?self1 = "self\<lparr>cycle_count := Suc (cycle_count self)\<rparr>"
  let ?h = "case received of
              None \<Rightarrow> (None, w)
            | Some msg \<Rightarrow> field_handle_incoming_message e ?self1 msg w"
  obtain rh wh where h: "?h = (rh, wh)"
    by (cases ?h)
  have run: "field_run e self received w =
      (let rw = seq (seq (seq (rh, wh)
                      (\<lambda>w. if cycle_count ?self1 mod 4 = 0 then send_status_inform e ?self1 w
                            else (None, w)))
                 (\<lambda>w. if cycle_count ?self1 mod 5 = 0 then report_disaster e ?self1 w
                       else (None, w)))
            (sleep 2)
       in (fst rw, ?self1, snd rw))"
    using h by (cases received) (simp_all add: field_run_None field_run_Some Let_def)
  have rh: "rh = None"
    using assms unfolding run by (cases rh) (simp_all add: Let_def)
  have w1: "(case received of
               None \<Rightarrow> w
             | Some msg \<Rightarrow> snd (field_handle_incoming_message e ?self1 msg w)) = wh"
    using h by (cases received) simp_all
  show ?thesis
    using assms
    by (simp add: run rh w1 Let_def send_status_inform_eq report_disaster_eq sleep_def emit_def
        since_def split: if_splits)
qed

theorem periodic_informs_witness:
  "fst (field_run sample_env (sample_field\<lparr>cycle_count := 19\<rparr>) None fresh_world) = None
   \<and> cycle_count (fst (snd (field_run sample_env (sample_field\<lparr>cycle_count := 19\<rparr>) None
         fresh_world))) = 20
   \<and> map (\<lambda>m. (to m, performative_of m, body m))
        (outbox (since fresh_world
           (snd (snd (field_run sample_env (sample_field\<lparr>cycle_count := 19\<rparr>) None
              fresh_world))))) =
       [(''coordinator@404.city'', ''inform'',
         Some (json_text (PDict
           [(''status'', PStr ''operational''),
            (''agent'', PStr ''FieldAgent1''),
            (''location'', PStr ''Zone-0''),
            (''resources'', PStr ''available''),
            (''timestamp'', PStr ''09:30:00'')]))),
        (''coordinator@404.city'', ''inform'',
         Some (json_text (PDict
           [(''status'', PStr ''alert''),
            (''disaster_detected'', PStr ''Fire''),
            (''severity'', PStr ''high''),
            (''location'', PStr ''Zone-0''),
            (''timestamp'', PStr ''09:30:02'')])))]"
  using periodic_informs [of sample_env "sample_field\<lparr>cycle_count := 19\<rparr>" None fresh_world]
  by (simp add: run_eval sample_eval status_inform_message_def disaster_message_def
      disasters_def)

text \<open>
  Claim C5 as it is written, with a status INFORM sent exactly when the cycle count is a
  multiple of 4, fails: a field agent that receives a status request in its first call of
  \<open>run\<close> sends a status INFORM at cycle count 1.
\<close>

theorem periodic_informs_counterexample:
  "cycle_count sample_field = 0
   \<and> cycle_count (fst (snd (field_run sample_env sample_field (Some foreign_request)
         fresh_world))) = 1
   \<and> outbox (since fresh_world
        (snd (snd (field_run sample_env sample_field (Some foreign_request) fresh_world)))) =
       [status_inform_message sample_env (sample_field\<lparr>cycle_count := 1\<rparr>)
          (Datetime 2024 5 17 9 30 1)]"
  by (simp add: run_eval sample_eval status_inform_message_def)

section \<open>Replaying a run\<close>



end
